theory Spec2Isabelle
  imports Main
begin

section \<open>Gemini provider: models and tool-call support (google/src/base.ts)\<close>

text \<open>
  The enum \<open>GEMINI_MODEL\<close> is declared in \<open>types.ts\<close>. Its members are the keys of
  \<open>GEMINI_MODEL_INFO_MAP\<close>, whose type \<open>Record<GEMINI_MODEL, GeminiModelInfo>\<close> needs one entry
  for every member and admits no other key: sixteen members.
\<close>

datatype GEMINI_MODEL =
    GEMINI_PRO
  | GEMINI_PRO_VISION
  | GEMINI_PRO_LATEST
  | GEMINI_PRO_FLASH_LATEST
  | GEMINI_PRO_1_5_PRO_PREVIEW
  | GEMINI_PRO_1_5_FLASH_PREVIEW
  | GEMINI_PRO_1_5
  | GEMINI_PRO_1_5_FLASH
  | GEMINI_PRO_1_5_LATEST
  | GEMINI_PRO_1_5_FLASH_LATEST
  | GEMINI_2_0_FLASH_EXPERIMENTAL
  | GEMINI_2_0_FLASH
  | GEMINI_2_0_FLASH_LITE_PREVIEW
  | GEMINI_2_0_FLASH_LITE
  | GEMINI_2_0_FLASH_THINKING_EXP
  | GEMINI_2_0_PRO_EXPERIMENTAL

text \<open>\<open>GEMINI_MODEL_INFO_MAP\<close>: each model with its \<open>contextWindow\<close>, in the order of the source.\<close>

definition GEMINI_MODEL_INFO_MAP :: "(GEMINI_MODEL \<times> nat) list" where
  "GEMINI_MODEL_INFO_MAP =
    [(GEMINI_PRO, 30720),
     (GEMINI_PRO_VISION, 12288),
     (GEMINI_PRO_LATEST, 10 ^ 6),
     (GEMINI_PRO_FLASH_LATEST, 10 ^ 6),
     (GEMINI_PRO_1_5_PRO_PREVIEW, 10 ^ 6),
     (GEMINI_PRO_1_5_FLASH_PREVIEW, 10 ^ 6),
     (GEMINI_PRO_1_5, 2 * 10 ^ 6),
     (GEMINI_PRO_1_5_FLASH, 10 ^ 6),
     (GEMINI_PRO_1_5_LATEST, 2 * 10 ^ 6),
     (GEMINI_PRO_1_5_FLASH_LATEST, 10 ^ 6),
     (GEMINI_2_0_FLASH_EXPERIMENTAL, 10 ^ 6),
     (GEMINI_2_0_FLASH, 10 ^ 6),
     (GEMINI_2_0_FLASH_LITE_PREVIEW, 10 ^ 6),
     (GEMINI_2_0_FLASH_LITE, 10 ^ 6),
     (GEMINI_2_0_FLASH_THINKING_EXP, 32768),
     (GEMINI_2_0_PRO_EXPERIMENTAL, 2 * 10 ^ 6)]"

definition SUPPORT_TOOL_CALL_MODELS :: "GEMINI_MODEL list" where
  "SUPPORT_TOOL_CALL_MODELS =
    [GEMINI_PRO,
     GEMINI_PRO_VISION,
     GEMINI_PRO_1_5_PRO_PREVIEW,
     GEMINI_PRO_1_5_FLASH_PREVIEW,
     GEMINI_PRO_1_5,
     GEMINI_PRO_1_5_FLASH,
     GEMINI_PRO_LATEST,
     GEMINI_PRO_FLASH_LATEST,
     GEMINI_PRO_1_5_LATEST,
     GEMINI_PRO_1_5_FLASH_LATEST,
     GEMINI_2_0_FLASH_EXPERIMENTAL,
     GEMINI_2_0_FLASH,
     GEMINI_2_0_PRO_EXPERIMENTAL]"

text \<open>
  The fields of a \<open>Gemini\<close> instance. \<open>temperature\<close> and \<open>topP\<close> are only handed on to the
  vendor client, so their number type is left open; \<open>session\<close> is the \<open>IGeminiSession\<close> the
  instance talks through.
\<close>

record ('num, 'session) Gemini =
  model :: GEMINI_MODEL
  temperature :: 'num
  topP :: 'num
  maxTokens :: "nat option"
  session :: 'session

text \<open>\<open>Array.prototype.includes\<close> on a list of enum members.\<close>

primrec array_includes :: "'a list \<Rightarrow> 'a \<Rightarrow> bool" where
  "array_includes [] x = False"
| "array_includes (y # ys) x = (if y = x then True else array_includes ys x)"

definition supportToolCall :: "('num, 'session) Gemini \<Rightarrow> bool" where
  "supportToolCall g = array_includes SUPPORT_TOOL_CALL_MODELS (model g)"

section \<open>Azure Cosmos index store factories (AzureCosmosMongovCoreIndexStore.ts)\<close>

definition DEFAULT_DATABASE :: string where
  "DEFAULT_DATABASE = ''IndexStoreDB''"

definition DEFAULT_COLLECTION :: string where
  "DEFAULT_COLLECTION = ''IndexStoreCollection''"

text \<open>
  A parameter with a default (\<open>dbName: string = DEFAULT_DATABASE\<close>) takes the default when the
  argument is omitted or \<open>undefined\<close>.
\<close>

definition default_param :: "'a \<Rightarrow> 'a option \<Rightarrow> 'a" where
  "default_param d arg = (case arg of None \<Rightarrow> d | Some v \<Rightarrow> v)"

text \<open>The second argument of \<open>new MongoClient(connectionString, {appName: ...})\<close>.\<close>

record MongoClientOptions =
  appName :: "string option"

text \<open>
  The class \<open>AzureCosmosVCoreKVStore\<close> and the base class \<open>KVIndexStore\<close> are imported, not
  defined, by the file. A key-value store is represented by the arguments it is constructed with,
  an index store by the arguments its constructor hands to \<open>super\<close>. The Mongo client is the
  driver's object: its type is a parameter.
\<close>

record 'client AzureCosmosVCoreKVStore =
  mongoClient :: 'client
  dbName :: string
  collectionName :: string

record 'client AzureCosmosVCoreIndexStore =
  azureCosmosVCoreKVStore :: "'client AzureCosmosVCoreKVStore"
  namespace :: "string option"

definition fromMongoClient ::
    "'client \<Rightarrow> string option \<Rightarrow> string option \<Rightarrow> 'client AzureCosmosVCoreIndexStore" where
  "fromMongoClient client dbArg collArg =
    (let db = default_param DEFAULT_DATABASE dbArg;
         coll = default_param DEFAULT_COLLECTION collArg;
         kv = \<lparr>mongoClient = client, dbName = db, collectionName = coll\<rparr>;
         ns = db @ ''.'' @ coll
     in \<lparr>azureCosmosVCoreKVStore = kv, namespace = Some ns\<rparr>)"

text \<open>
  \<open>newMongoClient\<close> is the driver's constructor \<open>new MongoClient(connectionString, options)\<close>;
  it rejects a connection string it cannot parse, and \<open>fromConnectionString\<close> passes that
  error on.
\<close>

definition fromConnectionString ::
    "(string \<Rightarrow> MongoClientOptions \<Rightarrow> 'err + 'client) \<Rightarrow> string \<Rightarrow> string option \<Rightarrow> string option
      \<Rightarrow> 'err + 'client AzureCosmosVCoreIndexStore" where
  "fromConnectionString newMongoClient connectionString dbArg collArg =
    (let db = default_param DEFAULT_DATABASE dbArg;
         coll = default_param DEFAULT_COLLECTION collArg
     in case newMongoClient connectionString \<lparr>appName = Some ''LLAMAINDEX_JS''\<rparr> of
          Inl e \<Rightarrow> Inl e
        | Inr client \<Rightarrow>
            Inr \<lparr>azureCosmosVCoreKVStore =
                   \<lparr>mongoClient = client, dbName = db, collectionName = coll\<rparr>,
                 namespace = Some (db @ ''.'' @ coll)\<rparr>)"

section \<open>Gemini sessions and the session store (google/src/base.ts)\<close>

text \<open>
  \<open>GEMINI_BACKENDS\<close> and the options types come from \<open>types.ts\<close>; \<open>base.ts\<close> reads the fields
  \<open>backend\<close> and \<open>apiKey\<close> (optional: \<open>None\<close> is a missing or \<open>undefined\<close> property).
\<close>

datatype GEMINI_BACKENDS = GOOGLE | VERTEX

record GeminiSessionOptions =
  backend :: GEMINI_BACKENDS
  apiKey :: "string option"

text \<open>
  What the code throws: \<open>Error\<close> with its message (also the vendor SDK's errors), and the
  \<open>TypeError\<close> of reading a property of \<open>undefined\<close>.
\<close>

datatype error = Error string | TypeError

text \<open>The process environment; \<open>getEnv\<close> gives \<open>undefined\<close> for a variable that is not set.\<close>

type_synonym env = "string \<rightharpoonup> string"

definition getEnv :: "env \<Rightarrow> string \<Rightarrow> string option" where
  "getEnv e var = e var"

text \<open>The test \<open>!options.apiKey\<close>: an absent key and the empty string are both falsy.\<close>

definition falsy :: "string option \<Rightarrow> bool" where
  "falsy k = (case k of None \<Rightarrow> True | Some s \<Rightarrow> s = [])"

text \<open>
  The vendor client \<open>GoogleGenerativeAI\<close> keeps the key it is constructed with. A
  \<open>GeminiSession\<close> is an object: \<open>ident\<close> is its identity, the number of \<open>GeminiSession\<close>
  objects constructed before it.
\<close>

record GoogleGenerativeAI =
  ai_apiKey :: string

record GeminiSession =
  ident :: nat
  gemini :: GoogleGenerativeAI

text \<open>
  The constructor of \<open>GeminiSession\<close>. It writes the environment's key into the caller's options
  object when that has none, so it gives back the options as it leaves them, next to the session
  or the error. The second test \<open>!options.apiKey\<close> is written out: the key is absent or empty.
\<close>

definition GeminiSession_new ::
    "env \<Rightarrow> GeminiSessionOptions \<Rightarrow> nat \<Rightarrow> (error + GeminiSession) \<times> GeminiSessionOptions" where
  "GeminiSession_new e opts n =
    (let opts1 =
           (if falsy (apiKey opts)
            then opts\<lparr>apiKey := getEnv e ''GOOGLE_API_KEY''\<rparr>
            else opts)
     in case apiKey opts1 of
          None \<Rightarrow> (Inl (Error ''Set Google API Key in GOOGLE_API_KEY env variable''), opts1)
        | Some k \<Rightarrow>
            if k = []
            then (Inl (Error ''Set Google API Key in GOOGLE_API_KEY env variable''), opts1)
            else (Inr \<lparr>ident = n, gemini = \<lparr>ai_apiKey = k\<rparr>\<rparr>, opts1))"

text \<open>
  The static array \<open>GeminiSessionStore.sessions\<close> holds pairs of a session and the options
  object it was stored with. \<open>allocated\<close> counts the \<open>GeminiSession\<close> objects constructed so
  far (it numbers the next one).
\<close>

record session_entry =
  entry_session :: GeminiSession
  entry_options :: GeminiSessionOptions

record store_state =
  sessions :: "session_entry list"
  allocated :: nat

definition initial_store :: store_state where
  "initial_store = \<lparr>sessions = [], allocated = 0\<rparr>"

definition getSessionId :: "GeminiSessionOptions \<Rightarrow> string" where
  "getSessionId opts =
    (if backend opts = GOOGLE
     then (case apiKey opts of None \<Rightarrow> [] | Some k \<Rightarrow> k)
     else [])"

definition sessionMatched :: "GeminiSessionOptions \<Rightarrow> GeminiSessionOptions \<Rightarrow> bool" where
  "sessionMatched o1 o2 = (getSessionId o1 = getSessionId o2)"

text \<open>
  \<open>GeminiSessionStore.get\<close>. The argument is optional and defaults to a fresh
  \<open>{backend: GOOGLE}\<close>. The result is what the call returns or throws, the options object as the
  call leaves it (the stored entry shares it with the caller), and the store afterwards.
\<close>

definition get ::
    "env \<Rightarrow> GeminiSessionOptions option \<Rightarrow> store_state
      \<Rightarrow> (error + GeminiSession) \<times> GeminiSessionOptions \<times> store_state" where
  "get e optionsArg st =
    (let opts = default_param \<lparr>backend = GOOGLE, apiKey = None\<rparr> optionsArg
     in case List.find (\<lambda>entry. sessionMatched (entry_options entry) opts) (sessions st) of
          Some entry \<Rightarrow> (Inr (entry_session entry), opts, st)
        | None \<Rightarrow>
            if backend opts = VERTEX
            then (Inl (Error ''No Session''), opts, st)
            else (case GeminiSession_new e opts (allocated st) of
                    (Inl err, opts1) \<Rightarrow> (Inl err, opts1, st)
                  | (Inr s, opts1) \<Rightarrow>
                      (Inr s, opts1,
                       st\<lparr>sessions := sessions st @ [\<lparr>entry_session = s, entry_options = opts1\<rparr>],
                          allocated := Suc (allocated st)\<rparr>)))"

text \<open>
  \<open>get\<close> pushes the caller's options object itself, so the caller can still assign to it. The
  type of the options lets a caller assign a string or \<open>undefined\<close> to \<open>apiKey\<close>;
  \<open>assign_apiKey i k\<close> is the assignment \<open>o.apiKey = k\<close> to the options object \<open>o\<close> of entry
  \<open>i\<close>. An options object is stored in one entry at most (a second \<open>get\<close> with it finds its
  own entry, or an earlier one), so the assignment changes that entry only, and a store of
  values shows what a store of references does.
\<close>

definition assign_apiKey :: "nat \<Rightarrow> string option \<Rightarrow> store_state \<Rightarrow> store_state" where
  "assign_apiKey i k st =
    (if i < length (sessions st)
     then st\<lparr>sessions :=
            (sessions st)
              [i := (sessions st ! i)\<lparr>entry_options := (entry_options (sessions st ! i))\<lparr>apiKey := k\<rparr>\<rparr>]\<rparr>
     else st)"

text \<open>
  The stores the program can be in: the empty store, a store after a call of \<open>get\<close> (with any
  environment and any argument), and a store after a caller has assigned to the \<open>apiKey\<close> of an
  options object that the store holds.
\<close>

inductive reachable :: "store_state \<Rightarrow> bool" where
  reachable_initial: "reachable initial_store"
| reachable_get: "reachable st \<Longrightarrow> get e optionsArg st = (r, opts1, st1) \<Longrightarrow> reachable st1"
| reachable_assign: "reachable st \<Longrightarrow> reachable (assign_apiKey i k st)"

text \<open>An environment that sets \<open>GOOGLE_API_KEY\<close>, and the store after one \<open>get()\<close> under it.\<close>

definition env_K :: env where
  "env_K = [''GOOGLE_API_KEY'' \<mapsto> ''K'']"

definition store_K :: store_state where
  "store_K =
    \<lparr>sessions =
       [\<lparr>entry_session = \<lparr>ident = 0, gemini = \<lparr>ai_apiKey = ''K''\<rparr>\<rparr>,
         entry_options = \<lparr>backend = GOOGLE, apiKey = Some ''K''\<rparr>\<rparr>],
     allocated = 1\<rparr>"

text \<open>
  The store after \<open>get(o)\<close> and the caller's \<open>o.apiKey = undefined\<close>: the entry's options have
  the empty session id.
\<close>

definition store_K_cleared :: store_state where
  "store_K_cleared =
    \<lparr>sessions =
       [\<lparr>entry_session = \<lparr>ident = 0, gemini = \<lparr>ai_apiKey = ''K''\<rparr>\<rparr>,
         entry_options = \<lparr>backend = GOOGLE, apiKey = None\<rparr>\<rparr>],
     allocated = 1\<rparr>"

text \<open>The store after a second \<open>get()\<close> with the default argument.\<close>

definition store_K_twice :: store_state where
  "store_K_twice =
    \<lparr>sessions =
       [\<lparr>entry_session = \<lparr>ident = 0, gemini = \<lparr>ai_apiKey = ''K''\<rparr>\<rparr>,
         entry_options = \<lparr>backend = GOOGLE, apiKey = Some ''K''\<rparr>\<rparr>,
        \<lparr>entry_session = \<lparr>ident = 1, gemini = \<lparr>ai_apiKey = ''K''\<rparr>\<rparr>,
         entry_options = \<lparr>backend = GOOGLE, apiKey = Some ''K''\<rparr>\<rparr>],
     allocated = 2\<rparr>"

section \<open>Response extraction and chat (google/src/base.ts)\<close>

text \<open>
  The vendor's \<open>FunctionCall\<close> (\<open>name\<close>, \<open>args\<close>) and the toolkit's \<open>ToolCall\<close> (\<open>name\<close>,
  \<open>input\<close>, \<open>id\<close>); the fields carry a prefix because both have a \<open>name\<close>. The arguments are
  JSON values of the vendor: their type is a parameter.
\<close>

record 'a FunctionCall =
  fc_name :: string
  fc_args :: 'a

record 'a ToolCall =
  tc_name :: string
  tc_input :: 'a
  tc_id :: string

text \<open>
  The vendor's \<open>EnhancedGenerateContentResponse\<close>, as far as the code reads it: what the
  accessors \<open>text()\<close> and \<open>functionCalls()\<close> return or throw, and the optional
  \<open>candidates\<close>, each with the role of its content.
\<close>

record Candidate =
  content_role :: string

record 'a EnhancedGenerateContentResponse =
  text_accessor :: "error + string"
  functionCalls_accessor :: "error + 'a FunctionCall list option"
  candidates :: "Candidate list option"

definition getResponseText :: "'a EnhancedGenerateContentResponse \<Rightarrow> error + string" where
  "getResponseText response = text_accessor response"

text \<open>
  \<open>randomUUID()\<close> is modelled by the sequence \<open>uuid\<close> of the values it returns and the number
  \<open>n\<close> of calls made so far; \<open>Array.prototype.map\<close> calls it once per function call, in order.
\<close>

fun tool_calls :: "(nat \<Rightarrow> string) \<Rightarrow> nat \<Rightarrow> 'a FunctionCall list \<Rightarrow> 'a ToolCall list" where
  "tool_calls uuid n [] = []"
| "tool_calls uuid n (call # calls) =
     \<lparr>tc_name = fc_name call, tc_input = fc_args call, tc_id = uuid n\<rparr>
       # tool_calls uuid (Suc n) calls"

definition getToolsFromResponse ::
    "(nat \<Rightarrow> string) \<Rightarrow> nat \<Rightarrow> 'a EnhancedGenerateContentResponse
      \<Rightarrow> (error + 'a ToolCall list option) \<times> nat" where
  "getToolsFromResponse uuid n response =
    (case functionCalls_accessor response of
       Inl e \<Rightarrow> (Inl e, n)
     | Inr None \<Rightarrow> (Inr None, n)
     | Inr (Some calls) \<Rightarrow> (Inr (Some (tool_calls uuid n calls)), n + length calls))"

text \<open>
  \<open>ToolCallLLMMessageOptions\<close>: the object \<open>{}\<close> has no \<open>toolCall\<close>. The expression
  \<open>tools?.length ? {toolCall: tools} : {}\<close> is written twice in the source.
\<close>

record 'a ToolCallLLMMessageOptions =
  toolCall :: "'a ToolCall list option"

definition tool_call_options :: "'a ToolCall list option \<Rightarrow> 'a ToolCallLLMMessageOptions" where
  "tool_call_options tools =
    (case tools of
       None \<Rightarrow> \<lparr>toolCall = None\<rparr>
     | Some ts \<Rightarrow> if length ts \<noteq> 0 then \<lparr>toolCall = Some ts\<rparr> else \<lparr>toolCall = None\<rparr>)"

text \<open>A chunk of the chat stream: \<open>{delta, raw, options}\<close>.\<close>

record 'a ChatResponseChunk =
  delta :: string
  chunk_raw :: "'a EnhancedGenerateContentResponse"
  chunk_options :: "'a ToolCallLLMMessageOptions"

text \<open>The converter \<open>getChatStream\<close> applies to each response of the vendor's stream.\<close>

definition chat_chunk ::
    "(nat \<Rightarrow> string) \<Rightarrow> nat \<Rightarrow> 'a EnhancedGenerateContentResponse
      \<Rightarrow> (error + 'a ChatResponseChunk) \<times> nat" where
  "chat_chunk uuid n response =
    (case getToolsFromResponse uuid n response of
       (Inl e, n1) \<Rightarrow> (Inl e, n1)
     | (Inr tools, n1) \<Rightarrow>
         (let opts = tool_call_options tools
          in case getResponseText response of
               Inl e \<Rightarrow> (Inl e, n1)
             | Inr t \<Rightarrow> (Inr \<lparr>delta = t, chunk_raw = response, chunk_options = opts\<rparr>, n1)))"

text \<open>
  A stream (an async iterable) is the list of the items it yields and the error it ends with, if
  it throws; the consumer reads it to its end.
\<close>

type_synonym 'x async_stream = "'x list \<times> error option"

text \<open>
  Modelled from the spec: \<open>streamConverter\<close> of \<open>@llamaindex/core/utils\<close> is not among the
  sources; the adapters pass native async iterators through, so it yields the converter's result
  for each item of the stream, in order, and ends where the stream ends or the converter throws.
  The converter takes and returns the number of UUIDs drawn so far.
\<close>

fun streamConverter ::
    "'s async_stream \<Rightarrow> (nat \<Rightarrow> 's \<Rightarrow> (error + 'd) \<times> nat) \<Rightarrow> nat \<Rightarrow> 'd async_stream \<times> nat" where
  "streamConverter ([], ending) converter n = (([], ending), n)"
| "streamConverter (x # xs, ending) converter n =
     (case converter n x of
        (Inl e, n1) \<Rightarrow> (([], Some e), n1)
      | (Inr d, n1) \<Rightarrow>
          (case streamConverter (xs, ending) converter n1 of
             ((ds, ending1), n2) \<Rightarrow> ((d # ds, ending1), n2)))"

definition getChatStream ::
    "(nat \<Rightarrow> string) \<Rightarrow> nat \<Rightarrow> 'a EnhancedGenerateContentResponse async_stream
      \<Rightarrow> 'a ChatResponseChunk async_stream \<times> nat" where
  "getChatStream uuid n result_stream =
     streamConverter result_stream (\<lambda>k response. chat_chunk uuid k response) n"

text \<open>
  A chat message \<open>{content, role, options}\<close>; the types of its fields differ between the
  provider and the agent, so they are parameters.
\<close>

record ('c, 'r, 'o) ChatMessage =
  content :: 'c
  role :: 'r
  options :: 'o

record 'a ChatResponse =
  raw :: "'a EnhancedGenerateContentResponse"
  message :: "(string, string option, 'a ToolCallLLMMessageOptions) ChatMessage"

text \<open>
  The parameters of \<open>Gemini.chat\<close>: \<open>stream\<close> is \<open>true\<close>, \<open>false\<close>, \<open>null\<close> or absent. The
  messages, the tools and the additional options go to the vendor round trip only; they are the
  extension \<open>'p\<close> of the record.
\<close>

record GeminiChatParams =
  stream :: "bool option"

text \<open>
  \<open>nonStreamChat\<close>. \<open>sendMessage\<close> stands for the vendor round trip
  \<open>session.getGenerativeModel(metadata).startChat(...).sendMessage(context.message)\<close>, a function
  of the instance and the parameters; \<open>roles\<close> is the table \<open>GeminiHelper.ROLES_FROM_GEMINI\<close> of
  \<open>utils.ts\<close>. Reading \<open>candidates[0]\<close> of a response without candidates, or the content of
  a first candidate that is not there, is a \<open>TypeError\<close>.
\<close>

definition nonStreamChat ::
    "(('num, 'session) Gemini \<Rightarrow> 'p GeminiChatParams_scheme
        \<Rightarrow> error + 'a EnhancedGenerateContentResponse)
      \<Rightarrow> (string \<Rightarrow> string option) \<Rightarrow> (nat \<Rightarrow> string) \<Rightarrow> nat
      \<Rightarrow> ('num, 'session) Gemini \<Rightarrow> 'p GeminiChatParams_scheme
      \<Rightarrow> (error + 'a ChatResponse) \<times> nat" where
  "nonStreamChat sendMessage roles uuid n g params =
    (case sendMessage g params of
       Inl e \<Rightarrow> (Inl e, n)
     | Inr response \<Rightarrow>
         (case candidates response of
            None \<Rightarrow> (Inl TypeError, n)
          | Some cs \<Rightarrow>
              (case getToolsFromResponse uuid n response of
                 (Inl e, n1) \<Rightarrow> (Inl e, n1)
               | (Inr tools, n1) \<Rightarrow>
                   (let opts = tool_call_options tools
                    in case getResponseText response of
                         Inl e \<Rightarrow> (Inl e, n1)
                       | Inr t \<Rightarrow>
                           (case cs of
                              [] \<Rightarrow> (Inl TypeError, n1)
                            | topCandidate # rest \<Rightarrow>
                                (Inr \<lparr>raw = response,
                                      message = \<lparr>content = t,
                                                 role = roles (content_role topCandidate),
                                                 options = opts\<rparr>\<rparr>, n1))))))"

text \<open>
  \<open>streamChat\<close> is an async generator: a failure of \<open>sendMessageStream\<close> shows as a stream that
  ends with that error before its first chunk.
\<close>

definition streamChat ::
    "(('num, 'session) Gemini \<Rightarrow> 'p GeminiChatParams_scheme
        \<Rightarrow> error + 'a EnhancedGenerateContentResponse async_stream)
      \<Rightarrow> (nat \<Rightarrow> string) \<Rightarrow> nat
      \<Rightarrow> ('num, 'session) Gemini \<Rightarrow> 'p GeminiChatParams_scheme
      \<Rightarrow> 'a ChatResponseChunk async_stream \<times> nat" where
  "streamChat sendMessageStream uuid n g params =
    (case sendMessageStream g params of
       Inl e \<Rightarrow> (([], Some e), n)
     | Inr result_stream \<Rightarrow> getChatStream uuid n result_stream)"

datatype 'a chat_result =
    Streaming "'a ChatResponseChunk async_stream"
  | NonStreaming "error + 'a ChatResponse"

text \<open>
  Modelled from the spec: the decorator \<open>wrapLLMEvent\<close> of \<open>@llamaindex/core/decorator\<close> is not
  among the sources. It draws one UUID with \<open>randomUUID()\<close>, the id of the events it reports to
  the toolkit's callback manager, before it calls the method, and it hands on what the method
  returns; the chunks of a stream pass through it unchanged.
\<close>

definition wrapLLMEvent :: "(nat \<Rightarrow> 'r \<times> nat) \<Rightarrow> nat \<Rightarrow> 'r \<times> nat" where
  "wrapLLMEvent originalMethod n = originalMethod (Suc n)"

text \<open>\<open>Gemini.chat\<close>, decorated with \<open>wrapLLMEvent\<close>.\<close>

definition chat ::
    "(('num, 'session) Gemini \<Rightarrow> 'p GeminiChatParams_scheme
        \<Rightarrow> error + 'a EnhancedGenerateContentResponse)
      \<Rightarrow> (('num, 'session) Gemini \<Rightarrow> 'p GeminiChatParams_scheme
        \<Rightarrow> error + 'a EnhancedGenerateContentResponse async_stream)
      \<Rightarrow> (string \<Rightarrow> string option) \<Rightarrow> (nat \<Rightarrow> string) \<Rightarrow> nat
      \<Rightarrow> ('num, 'session) Gemini \<Rightarrow> 'p GeminiChatParams_scheme
      \<Rightarrow> 'a chat_result \<times> nat" where
  "chat sendMessage sendMessageStream roles uuid n g params =
    wrapLLMEvent
      (\<lambda>k. if stream params = Some True
           then (case streamChat sendMessageStream uuid k g params of
                   (chunks, n1) \<Rightarrow> (Streaming chunks, n1))
           else (case nonStreamChat sendMessage roles uuid k g params of
                   (response, n1) \<Rightarrow> (NonStreaming response, n1)))
      n"

section \<open>Context-aware agent (withContextAwareness)\<close>










section \<open>Example data\<close>

text \<open>
  Concrete values on which the theorems below are instantiated: a sequence of UUIDs, a role
  table, vendor responses (one plain, two with a function call, one blocked), the chunks and the response
  the provider makes of them, and an agent whose retriever finds two nodes.
\<close>

definition example_uuid :: "nat \<Rightarrow> string" where
  "example_uuid n = replicate (Suc n) CHR ''u''"

definition example_roles :: "string \<Rightarrow> string option" where
  "example_roles = [''user'' \<mapsto> ''user'', ''model'' \<mapsto> ''assistant'']"

definition response_plain :: "string EnhancedGenerateContentResponse" where
  "response_plain =
    \<lparr>text_accessor = Inr ''Hello'', functionCalls_accessor = Inr None,
     candidates = Some [\<lparr>content_role = ''model''\<rparr>]\<rparr>"

definition response_tool :: "string EnhancedGenerateContentResponse" where
  "response_tool =
    \<lparr>text_accessor = Inr [],
     functionCalls_accessor = Inr (Some [\<lparr>fc_name = ''search'', fc_args = ''{q: 1}''\<rparr>]),
     candidates = Some [\<lparr>content_role = ''model''\<rparr>]\<rparr>"

definition response_blocked :: "string EnhancedGenerateContentResponse" where
  "response_blocked =
    \<lparr>text_accessor = Inl (Error ''blocked''), functionCalls_accessor = Inl (Error ''blocked''),
     candidates = None\<rparr>"


definition example_gemini :: "(nat, unit) Gemini" where
  "example_gemini = \<lparr>model = GEMINI_PRO, temperature = 0, topP = 1, maxTokens = None, session = ()\<rparr>"

definition example_chunks :: "string ChatResponseChunk list" where
  "example_chunks =
    [\<lparr>delta = ''Hello'', chunk_raw = response_plain, chunk_options = \<lparr>toolCall = None\<rparr>\<rparr>,
     \<lparr>delta = [], chunk_raw = response_tool,
      chunk_options =
        \<lparr>toolCall = Some [\<lparr>tc_name = ''search'', tc_input = ''{q: 1}'', tc_id = ''u''\<rparr>]\<rparr>\<rparr>]"

definition example_response :: "string ChatResponse" where
  "example_response =
    \<lparr>raw = response_tool,
     message =
       \<lparr>content = [], role = Some ''assistant'',
        options =
          \<lparr>toolCall = Some [\<lparr>tc_name = ''search'', tc_input = ''{q: 1}'', tc_id = ''u''\<rparr>]\<rparr>\<rparr>\<rparr>"







section \<open>Theorems\<close>

lemma array_includes_set: "array_includes xs x \<longleftrightarrow> x \<in> set xs"
  by (induction xs) auto

text \<open>
  C10. \<open>supportToolCall\<close> is true exactly when the instance's model is in the fixed list of
  thirteen (pairwise different) supported models. It is false exactly for
  \<open>GEMINI_2_0_FLASH_THINKING_EXP\<close>, \<open>GEMINI_2_0_FLASH_LITE_PREVIEW\<close> and
  \<open>GEMINI_2_0_FLASH_LITE\<close>, each of which has an entry in the model-info map.
\<close>

theorem supportToolCall_thirteen_models:
  "length SUPPORT_TOOL_CALL_MODELS = 13
   \<and> distinct SUPPORT_TOOL_CALL_MODELS
   \<and> (supportToolCall g \<longleftrightarrow> model g \<in> set SUPPORT_TOOL_CALL_MODELS)
   \<and> (supportToolCall g = False \<longleftrightarrow>
        model g \<in> {GEMINI_2_0_FLASH_THINKING_EXP, GEMINI_2_0_FLASH_LITE_PREVIEW, GEMINI_2_0_FLASH_LITE})
   \<and> map_of GEMINI_MODEL_INFO_MAP GEMINI_2_0_FLASH_THINKING_EXP = Some 32768
   \<and> map_of GEMINI_MODEL_INFO_MAP GEMINI_2_0_FLASH_LITE_PREVIEW = Some (10 ^ 6)
   \<and> map_of GEMINI_MODEL_INFO_MAP GEMINI_2_0_FLASH_LITE = Some (10 ^ 6)"
proof -
  have len: "length SUPPORT_TOOL_CALL_MODELS = 13"
    by (simp add: SUPPORT_TOOL_CALL_MODELS_def)
  have dist: "distinct SUPPORT_TOOL_CALL_MODELS"
    by (simp add: SUPPORT_TOOL_CALL_MODELS_def)
  have mem: "supportToolCall g \<longleftrightarrow> model g \<in> set SUPPORT_TOOL_CALL_MODELS"
    by (simp add: supportToolCall_def array_includes_set)
  have excl: "supportToolCall g = False \<longleftrightarrow>
      model g \<in> {GEMINI_2_0_FLASH_THINKING_EXP, GEMINI_2_0_FLASH_LITE_PREVIEW, GEMINI_2_0_FLASH_LITE}"
    by (cases "model g") (simp_all add: supportToolCall_def SUPPORT_TOOL_CALL_MODELS_def)
  have info: "map_of GEMINI_MODEL_INFO_MAP GEMINI_2_0_FLASH_THINKING_EXP = Some 32768"
    "map_of GEMINI_MODEL_INFO_MAP GEMINI_2_0_FLASH_LITE_PREVIEW = Some (10 ^ 6)"
    "map_of GEMINI_MODEL_INFO_MAP GEMINI_2_0_FLASH_LITE = Some (10 ^ 6)"
    by (simp_all add: GEMINI_MODEL_INFO_MAP_def)
  from len dist mem excl info show ?thesis by blast
qed

text \<open>
  C5. Both factories configure the key-value store with the same database and collection names
  and use the namespace \<open>dbName.collectionName\<close>; an omitted name is \<open>IndexStoreDB\<close>,
  respectively \<open>IndexStoreCollection\<close>. \<open>fromConnectionString\<close> builds the store that
  \<open>fromMongoClient\<close> builds from the client the driver constructs for the connection string
  (with \<open>appName\<close> \<open>LLAMAINDEX_JS\<close>), or passes on the driver's error.
\<close>

theorem index_store_factories_agree:
  "fromConnectionString newMongoClient cs dbArg collArg =
     map_sum id (\<lambda>client. fromMongoClient client dbArg collArg)
       (newMongoClient cs \<lparr>appName = Some ''LLAMAINDEX_JS''\<rparr>)
   \<and> dbName (azureCosmosVCoreKVStore (fromMongoClient client dbArg collArg))
       = (case dbArg of None \<Rightarrow> ''IndexStoreDB'' | Some d \<Rightarrow> d)
   \<and> collectionName (azureCosmosVCoreKVStore (fromMongoClient client dbArg collArg))
       = (case collArg of None \<Rightarrow> ''IndexStoreCollection'' | Some c \<Rightarrow> c)
   \<and> mongoClient (azureCosmosVCoreKVStore (fromMongoClient client dbArg collArg)) = client
   \<and> namespace (fromMongoClient client dbArg collArg)
       = Some (dbName (azureCosmosVCoreKVStore (fromMongoClient client dbArg collArg)) @ ''.''
               @ collectionName (azureCosmosVCoreKVStore (fromMongoClient client dbArg collArg)))"
  by (simp add: fromConnectionString_def fromMongoClient_def default_param_def
        DEFAULT_DATABASE_def DEFAULT_COLLECTION_def Let_def
      split: sum.splits option.splits)

subsection \<open>The session store\<close>

lemma find_None_list_all: "List.find P xs = None \<longleftrightarrow> list_all (\<lambda>x. \<not> P x) xs"
  by (induction xs) auto

lemma find_append:
  "List.find P (xs @ ys) = (case List.find P xs of None \<Rightarrow> List.find P ys | Some x \<Rightarrow> Some x)"
  by (induction xs) auto

lemmas get_eval =
  get_def GeminiSession_new_def default_param_def falsy_def getEnv_def sessionMatched_def
  getSessionId_def initial_store_def Let_def

lemma get_default_initial:
  "get env_K None initial_store =
     (Inr \<lparr>ident = 0, gemini = \<lparr>ai_apiKey = ''K''\<rparr>\<rparr>, \<lparr>backend = GOOGLE, apiKey = Some ''K''\<rparr>, store_K)"
  by (simp add: get_eval env_K_def store_K_def)

lemma store_K_reachable: "reachable store_K"
  by (rule reachable_get [OF reachable_initial get_default_initial])

text \<open>
  The path that does reuse a session: when the first call returns a session and leaves the id of
  its options as it was (a cache hit, or options that bring their own key), a second call with
  options of that id returns the same session object and constructs nothing.
\<close>

lemma get_again_same_id:
  assumes first: "get e optionsArg st = (Inr s, opts1, st1)"
    and kept: "getSessionId opts1
                 = getSessionId (default_param \<lparr>backend = GOOGLE, apiKey = None\<rparr> optionsArg)"
    and same: "getSessionId opts2 = getSessionId opts1"
  shows "get e2 (Some opts2) st1 = (Inr s, opts2, st1)"
  using assms
  by (auto simp: get_def Let_def sessionMatched_def default_param_def find_append
           split: option.splits if_splits prod.splits sum.splits)

text \<open>
  The same miss when the two options have the same id after the first call: session 0 is cached
  for an explicit key \<open>K\<close>, \<open>get()\<close> with the default argument then constructs session 1 and
  leaves its options with the key \<open>K\<close>, and a call with the key \<open>K\<close> after that returns session
  0, not the session the call before it created.
\<close>

lemma get_returns_older_session:
  "get env_K (Some \<lparr>backend = GOOGLE, apiKey = Some ''K''\<rparr>) initial_store
     = (Inr \<lparr>ident = 0, gemini = \<lparr>ai_apiKey = ''K''\<rparr>\<rparr>, \<lparr>backend = GOOGLE, apiKey = Some ''K''\<rparr>, store_K)
   \<and> get env_K None store_K
     = (Inr \<lparr>ident = 1, gemini = \<lparr>ai_apiKey = ''K''\<rparr>\<rparr>, \<lparr>backend = GOOGLE, apiKey = Some ''K''\<rparr>,
        store_K_twice)
   \<and> get env_K (Some \<lparr>backend = GOOGLE, apiKey = Some ''K''\<rparr>) store_K_twice
     = (Inr \<lparr>ident = 0, gemini = \<lparr>ai_apiKey = ''K''\<rparr>\<rparr>, \<lparr>backend = GOOGLE, apiKey = Some ''K''\<rparr>,
        store_K_twice)"
  by (simp add: get_eval env_K_def store_K_def store_K_twice_def)

text \<open>
  C2. Two calls \<open>get()\<close> with the default argument, \<open>GOOGLE_API_KEY\<close> set to \<open>K\<close>, on the empty
  store. Both arguments have the empty session id. The first call constructs session 0 and stores
  it with options whose \<open>apiKey\<close> the constructor has set to \<open>K\<close>; the second call finds no entry
  with the empty id, constructs session 1 and stores a second entry.
\<close>

theorem get_default_twice_constructs_twice:
  "getSessionId \<lparr>backend = GOOGLE, apiKey = None\<rparr> = []
   \<and> sessionMatched \<lparr>backend = GOOGLE, apiKey = None\<rparr> \<lparr>backend = GOOGLE, apiKey = None\<rparr>
   \<and> get env_K None initial_store
     = (Inr \<lparr>ident = 0, gemini = \<lparr>ai_apiKey = ''K''\<rparr>\<rparr>, \<lparr>backend = GOOGLE, apiKey = Some ''K''\<rparr>, store_K)
   \<and> get env_K None store_K
     = (Inr \<lparr>ident = 1, gemini = \<lparr>ai_apiKey = ''K''\<rparr>\<rparr>, \<lparr>backend = GOOGLE, apiKey = Some ''K''\<rparr>,
        store_K_twice)
   \<and> allocated store_K_twice = 2 \<and> length (sessions store_K_twice) = 2"
  by (simp add: get_eval env_K_def store_K_def store_K_twice_def)

text \<open>
  C3. The constructor of \<open>GeminiSession\<close> throws, and makes no session, when the options have no
  \<open>apiKey\<close> and \<open>GOOGLE_API_KEY\<close> is not set. It succeeds with the key of the options when they
  have a (non-empty) one, and otherwise with the (non-empty) key of the environment, which it
  also writes into the options. It throws exactly when neither gives a non-empty key.
\<close>

theorem GeminiSession_new_needs_key:
  "(apiKey opts = None \<and> getEnv e ''GOOGLE_API_KEY'' = None \<longrightarrow>
      fst (GeminiSession_new e opts n)
        = Inl (Error ''Set Google API Key in GOOGLE_API_KEY env variable''))
   \<and> (apiKey opts = Some (c # cs) \<longrightarrow>
      GeminiSession_new e opts n
        = (Inr \<lparr>ident = n, gemini = \<lparr>ai_apiKey = c # cs\<rparr>\<rparr>, opts))
   \<and> (falsy (apiKey opts) \<and> getEnv e ''GOOGLE_API_KEY'' = Some (c # cs) \<longrightarrow>
      GeminiSession_new e opts n
        = (Inr \<lparr>ident = n, gemini = \<lparr>ai_apiKey = c # cs\<rparr>\<rparr>, opts\<lparr>apiKey := Some (c # cs)\<rparr>))
   \<and> (isl (fst (GeminiSession_new e opts n)) \<longleftrightarrow>
        falsy (apiKey opts) \<and> falsy (getEnv e ''GOOGLE_API_KEY''))"
  by (auto simp: GeminiSession_new_def Let_def falsy_def default_param_def split: option.splits)

theorem GeminiSession_new_needs_key_witness:
  "fst (GeminiSession_new Map.empty \<lparr>backend = GOOGLE, apiKey = None\<rparr> 0)
     = Inl (Error ''Set Google API Key in GOOGLE_API_KEY env variable'')
   \<and> GeminiSession_new Map.empty \<lparr>backend = GOOGLE, apiKey = Some ''A''\<rparr> 0
     = (Inr \<lparr>ident = 0, gemini = \<lparr>ai_apiKey = ''A''\<rparr>\<rparr>, \<lparr>backend = GOOGLE, apiKey = Some ''A''\<rparr>)
   \<and> GeminiSession_new env_K \<lparr>backend = GOOGLE, apiKey = None\<rparr> 0
     = (Inr \<lparr>ident = 0, gemini = \<lparr>ai_apiKey = ''K''\<rparr>\<rparr>, \<lparr>backend = GOOGLE, apiKey = Some ''K''\<rparr>)"
  using
    GeminiSession_new_needs_key
      [where opts = "\<lparr>backend = GOOGLE, apiKey = None\<rparr>" and e = Map.empty and n = 0
         and c = "CHR ''A''" and cs = "[]"]
    GeminiSession_new_needs_key
      [where opts = "\<lparr>backend = GOOGLE, apiKey = Some ''A''\<rparr>" and e = Map.empty and n = 0
         and c = "CHR ''A''" and cs = "[]"]
    GeminiSession_new_needs_key
      [where opts = "\<lparr>backend = GOOGLE, apiKey = None\<rparr>" and e = env_K and n = 0
         and c = "CHR ''K''" and cs = "[]"]
  by (simp add: falsy_def getEnv_def env_K_def)

lemma store_K_cleared_reachable: "reachable store_K_cleared"
proof -
  have "assign_apiKey 0 None store_K = store_K_cleared"
    by (simp add: assign_apiKey_def store_K_def store_K_cleared_def)
  with reachable_assign [OF store_K_reachable, of 0 None] show ?thesis
    by simp
qed

text \<open>
  C4, as the code has it. \<open>get\<close> with options of the backend \<open>VERTEX\<close> looks the empty session
  id up first: it throws \<open>No Session\<close>, and leaves the options and the store as they are,
  exactly when no entry of the store has options with the empty id, as in the empty store;
  otherwise it returns the session of the first such entry.
\<close>

theorem get_vertex_lookup_first:
  assumes "backend opts = VERTEX"
  shows "get e (Some opts) st
      = (case List.find (\<lambda>entry. getSessionId (entry_options entry) = []) (sessions st) of
           None \<Rightarrow> (Inl (Error ''No Session''), opts, st)
         | Some entry \<Rightarrow> (Inr (entry_session entry), opts, st))
    \<and> (get e (Some opts) st = (Inl (Error ''No Session''), opts, st)
        \<longleftrightarrow> list_all (\<lambda>entry. getSessionId (entry_options entry) \<noteq> []) (sessions st))
    \<and> get e (Some opts) initial_store = (Inl (Error ''No Session''), opts, initial_store)"
proof -
  have id: "getSessionId opts = []"
    using assms by (simp add: getSessionId_def)
  have exact: "get e (Some opts) st
      = (case List.find (\<lambda>entry. getSessionId (entry_options entry) = []) (sessions st) of
           None \<Rightarrow> (Inl (Error ''No Session''), opts, st)
         | Some entry \<Rightarrow> (Inr (entry_session entry), opts, st))" for st
    using assms id by (simp add: get_def default_param_def sessionMatched_def split: option.splits)
  have throws: "get e (Some opts) st = (Inl (Error ''No Session''), opts, st)
        \<longleftrightarrow> list_all (\<lambda>entry. getSessionId (entry_options entry) \<noteq> []) (sessions st)"
    unfolding exact find_None_list_all [symmetric]
    by (simp split: option.splits)
  have "get e (Some opts) initial_store = (Inl (Error ''No Session''), opts, initial_store)"
    unfolding exact by (simp add: initial_store_def)
  with exact throws show ?thesis by blast
qed

theorem get_vertex_lookup_first_witness:
  "get env_K (Some \<lparr>backend = VERTEX, apiKey = None\<rparr>) initial_store
     = (Inl (Error ''No Session''), \<lparr>backend = VERTEX, apiKey = None\<rparr>, initial_store)
   \<and> get env_K (Some \<lparr>backend = VERTEX, apiKey = None\<rparr>) store_K_cleared
     = (Inr \<lparr>ident = 0, gemini = \<lparr>ai_apiKey = ''K''\<rparr>\<rparr>, \<lparr>backend = VERTEX, apiKey = None\<rparr>,
        store_K_cleared)"
  using get_vertex_lookup_first [of "\<lparr>backend = VERTEX, apiKey = None\<rparr>" env_K initial_store]
    get_vertex_lookup_first [of "\<lparr>backend = VERTEX, apiKey = None\<rparr>" env_K store_K_cleared]
  by (simp add: store_K_cleared_def getSessionId_def)

text \<open>
  C4, as the claim states it, fails: a caller passes options \<open>o\<close> with the key \<open>K\<close> to \<open>get\<close>,
  which caches session 0 with that very object, and then assigns \<open>o.apiKey = undefined\<close>; \<open>get\<close>
  with options of the backend \<open>VERTEX\<close> now returns session 0 and does not throw.
\<close>

theorem get_vertex_returns_cached_session:
  "get env_K (Some \<lparr>backend = GOOGLE, apiKey = Some ''K''\<rparr>) initial_store
     = (Inr \<lparr>ident = 0, gemini = \<lparr>ai_apiKey = ''K''\<rparr>\<rparr>, \<lparr>backend = GOOGLE, apiKey = Some ''K''\<rparr>, store_K)
   \<and> assign_apiKey 0 None store_K = store_K_cleared
   \<and> reachable store_K_cleared
   \<and> get env_K (Some \<lparr>backend = VERTEX, apiKey = None\<rparr>) store_K_cleared
     = (Inr \<lparr>ident = 0, gemini = \<lparr>ai_apiKey = ''K''\<rparr>\<rparr>, \<lparr>backend = VERTEX, apiKey = None\<rparr>,
        store_K_cleared)"
  using store_K_cleared_reachable
  by (simp add: get_eval env_K_def store_K_def store_K_cleared_def assign_apiKey_def)

text \<open>
  C9. The session id of options of the backend \<open>VERTEX\<close>, and of options of the backend
  \<open>GOOGLE\<close> without \<open>apiKey\<close>, is the empty string, so \<open>sessionMatched\<close> holds between any two
  of them; \<open>get\<close> for one of them returns the session of the first entry whose options have the
  empty id. Such an entry can hold a session created from the other: \<open>get\<close> creates a session
  from \<open>GOOGLE\<close> options \<open>o\<close> without \<open>apiKey\<close> (the key comes from \<open>GOOGLE_API_KEY\<close>) and
  caches it with \<open>o\<close>; once the caller has assigned \<open>o.apiKey = undefined\<close>, the lookup for any
  options with the empty id returns that session.
\<close>

theorem empty_id_session_shared:
  "(backend opts1 = VERTEX \<or> (backend opts1 = GOOGLE \<and> apiKey opts1 = None)) \<and>
   (backend opts2 = VERTEX \<or> (backend opts2 = GOOGLE \<and> apiKey opts2 = None)) \<longrightarrow>
     getSessionId opts1 = [] \<and> getSessionId opts2 = [] \<and> sessionMatched opts1 opts2
     \<and> (List.find (\<lambda>entry. getSessionId (entry_options entry) = []) (sessions st) = Some entry \<longrightarrow>
          get e (Some opts2) st = (Inr (entry_session entry), opts2, st))
     \<and> (backend opts1 = GOOGLE \<and> getEnv e ''GOOGLE_API_KEY'' = Some (c # cs) \<longrightarrow>
          get e (Some opts1) initial_store
            = (Inr \<lparr>ident = 0, gemini = \<lparr>ai_apiKey = c # cs\<rparr>\<rparr>, opts1\<lparr>apiKey := Some (c # cs)\<rparr>,
               \<lparr>sessions = [\<lparr>entry_session = \<lparr>ident = 0, gemini = \<lparr>ai_apiKey = c # cs\<rparr>\<rparr>,
                              entry_options = opts1\<lparr>apiKey := Some (c # cs)\<rparr>\<rparr>],
                allocated = 1\<rparr>)
        \<and> assign_apiKey 0 None
             \<lparr>sessions = [\<lparr>entry_session = \<lparr>ident = 0, gemini = \<lparr>ai_apiKey = c # cs\<rparr>\<rparr>,
                            entry_options = opts1\<lparr>apiKey := Some (c # cs)\<rparr>\<rparr>],
              allocated = 1\<rparr>
            = \<lparr>sessions = [\<lparr>entry_session = \<lparr>ident = 0, gemini = \<lparr>ai_apiKey = c # cs\<rparr>\<rparr>,
                            entry_options = opts1\<rparr>],
               allocated = 1\<rparr>
        \<and> reachable
             \<lparr>sessions = [\<lparr>entry_session = \<lparr>ident = 0, gemini = \<lparr>ai_apiKey = c # cs\<rparr>\<rparr>,
                            entry_options = opts1\<rparr>],
              allocated = 1\<rparr>
        \<and> get e2 (Some opts2)
             \<lparr>sessions = [\<lparr>entry_session = \<lparr>ident = 0, gemini = \<lparr>ai_apiKey = c # cs\<rparr>\<rparr>,
                            entry_options = opts1\<rparr>],
              allocated = 1\<rparr>
            = (Inr \<lparr>ident = 0, gemini = \<lparr>ai_apiKey = c # cs\<rparr>\<rparr>, opts2,
               \<lparr>sessions = [\<lparr>entry_session = \<lparr>ident = 0, gemini = \<lparr>ai_apiKey = c # cs\<rparr>\<rparr>,
                              entry_options = opts1\<rparr>],
                allocated = 1\<rparr>))"
proof (intro impI)
  assume kinds: "(backend opts1 = VERTEX \<or> (backend opts1 = GOOGLE \<and> apiKey opts1 = None)) \<and>
   (backend opts2 = VERTEX \<or> (backend opts2 = GOOGLE \<and> apiKey opts2 = None))"
  define s0 where "s0 = \<lparr>ident = 0, gemini = \<lparr>ai_apiKey = c # cs\<rparr>\<rparr>"
  define st1 where "st1 = \<lparr>sessions = [\<lparr>entry_session = s0,
                              entry_options = opts1\<lparr>apiKey := Some (c # cs)\<rparr>\<rparr>], allocated = 1\<rparr>"
  define st2 where "st2 = \<lparr>sessions = [\<lparr>entry_session = s0, entry_options = opts1\<rparr>], allocated = 1\<rparr>"
  have id1: "getSessionId opts1 = []" and id2: "getSessionId opts2 = []"
    using kinds by (auto simp: getSessionId_def)
  have matched: "sessionMatched opts1 opts2"
    using id1 id2 by (simp add: sessionMatched_def)
  have hit: "get e (Some opts2) st = (Inr (entry_session entry), opts2, st)"
    if "List.find (\<lambda>entry. getSessionId (entry_options entry) = []) (sessions st) = Some entry"
    for st e entry
    using that id2 by (simp add: get_def default_param_def sessionMatched_def)
  have run: "get e (Some opts1) initial_store = (Inr s0, opts1\<lparr>apiKey := Some (c # cs)\<rparr>, st1)
      \<and> assign_apiKey 0 None st1 = st2 \<and> reachable st2
      \<and> get e2 (Some opts2) st2 = (Inr s0, opts2, st2)"
    if g: "backend opts1 = GOOGLE \<and> getEnv e ''GOOGLE_API_KEY'' = Some (c # cs)"
  proof -
    from g kinds have none: "apiKey opts1 = None" by auto
    have first: "get e (Some opts1) initial_store = (Inr s0, opts1\<lparr>apiKey := Some (c # cs)\<rparr>, st1)"
      using g none
      by (simp add: get_def GeminiSession_new_def default_param_def falsy_def initial_store_def
            Let_def s0_def st1_def)
    have "opts1\<lparr>apiKey := None\<rparr> = opts1"
      using none by simp
    then have assign: "assign_apiKey 0 None st1 = st2"
      by (simp add: assign_apiKey_def st1_def st2_def)
    have "reachable st1"
      by (rule reachable_get [OF reachable_initial first])
    from reachable_assign [OF this, of 0 None] assign have r: "reachable st2"
      by simp
    have "List.find (\<lambda>entry. getSessionId (entry_options entry) = []) (sessions st2)
        = Some \<lparr>entry_session = s0, entry_options = opts1\<rparr>"
      using id1 by (simp add: st2_def)
    from hit [OF this, of e2] have "get e2 (Some opts2) st2 = (Inr s0, opts2, st2)"
      by simp
    with first assign r show ?thesis by simp
  qed
  from id1 id2 matched hit run
  show "getSessionId opts1 = [] \<and> getSessionId opts2 = [] \<and> sessionMatched opts1 opts2
     \<and> (List.find (\<lambda>entry. getSessionId (entry_options entry) = []) (sessions st) = Some entry \<longrightarrow>
          get e (Some opts2) st = (Inr (entry_session entry), opts2, st))
     \<and> (backend opts1 = GOOGLE \<and> getEnv e ''GOOGLE_API_KEY'' = Some (c # cs) \<longrightarrow>
          get e (Some opts1) initial_store
            = (Inr \<lparr>ident = 0, gemini = \<lparr>ai_apiKey = c # cs\<rparr>\<rparr>, opts1\<lparr>apiKey := Some (c # cs)\<rparr>,
               \<lparr>sessions = [\<lparr>entry_session = \<lparr>ident = 0, gemini = \<lparr>ai_apiKey = c # cs\<rparr>\<rparr>,
                              entry_options = opts1\<lparr>apiKey := Some (c # cs)\<rparr>\<rparr>],
                allocated = 1\<rparr>)
        \<and> assign_apiKey 0 None
             \<lparr>sessions = [\<lparr>entry_session = \<lparr>ident = 0, gemini = \<lparr>ai_apiKey = c # cs\<rparr>\<rparr>,
                            entry_options = opts1\<lparr>apiKey := Some (c # cs)\<rparr>\<rparr>],
              allocated = 1\<rparr>
            = \<lparr>sessions = [\<lparr>entry_session = \<lparr>ident = 0, gemini = \<lparr>ai_apiKey = c # cs\<rparr>\<rparr>,
                            entry_options = opts1\<rparr>],
               allocated = 1\<rparr>
        \<and> reachable
             \<lparr>sessions = [\<lparr>entry_session = \<lparr>ident = 0, gemini = \<lparr>ai_apiKey = c # cs\<rparr>\<rparr>,
                            entry_options = opts1\<rparr>],
              allocated = 1\<rparr>
        \<and> get e2 (Some opts2)
             \<lparr>sessions = [\<lparr>entry_session = \<lparr>ident = 0, gemini = \<lparr>ai_apiKey = c # cs\<rparr>\<rparr>,
                            entry_options = opts1\<rparr>],
              allocated = 1\<rparr>
            = (Inr \<lparr>ident = 0, gemini = \<lparr>ai_apiKey = c # cs\<rparr>\<rparr>, opts2,
               \<lparr>sessions = [\<lparr>entry_session = \<lparr>ident = 0, gemini = \<lparr>ai_apiKey = c # cs\<rparr>\<rparr>,
                              entry_options = opts1\<rparr>],
                allocated = 1\<rparr>))"
    unfolding s0_def st1_def st2_def by blast
qed


theorem empty_id_session_shared_witness:
  "getSessionId \<lparr>backend = GOOGLE, apiKey = None\<rparr> = []
   \<and> getSessionId \<lparr>backend = VERTEX, apiKey = None\<rparr> = []
   \<and> sessionMatched \<lparr>backend = GOOGLE, apiKey = None\<rparr> \<lparr>backend = VERTEX, apiKey = None\<rparr>
   \<and> get env_K (Some \<lparr>backend = GOOGLE, apiKey = None\<rparr>) initial_store
       = (Inr \<lparr>ident = 0, gemini = \<lparr>ai_apiKey = ''K''\<rparr>\<rparr>, \<lparr>backend = GOOGLE, apiKey = Some ''K''\<rparr>,
          store_K)
   \<and> assign_apiKey 0 None store_K = store_K_cleared
   \<and> reachable store_K_cleared
   \<and> get env_K (Some \<lparr>backend = VERTEX, apiKey = None\<rparr>) store_K_cleared
       = (Inr \<lparr>ident = 0, gemini = \<lparr>ai_apiKey = ''K''\<rparr>\<rparr>, \<lparr>backend = VERTEX, apiKey = None\<rparr>,
          store_K_cleared)"
  using empty_id_session_shared
    [where ?opts1.0 = "\<lparr>backend = GOOGLE, apiKey = None\<rparr>"
       and ?opts2.0 = "\<lparr>backend = VERTEX, apiKey = None\<rparr>"
       and e = env_K and ?e2.0 = env_K and c = "CHR ''K''" and cs = "[]"
       and st = store_K_cleared
       and entry = "\<lparr>entry_session = \<lparr>ident = 0, gemini = \<lparr>ai_apiKey = ''K''\<rparr>\<rparr>,
                      entry_options = \<lparr>backend = GOOGLE, apiKey = None\<rparr>\<rparr>"]
  by (simp add: store_K_def store_K_cleared_def getEnv_def env_K_def)

subsection \<open>Response extraction\<close>

lemma length_tool_calls: "length (tool_calls uuid n calls) = length calls"
  by (induction calls arbitrary: n) auto

lemma nth_tool_calls:
  "i < length calls \<Longrightarrow>
     tool_calls uuid n calls ! i
       = \<lparr>tc_name = fc_name (calls ! i), tc_input = fc_args (calls ! i), tc_id = uuid (n + i)\<rparr>"
proof (induction calls arbitrary: n i)
  case Nil
  then show ?case by simp
next
  case (Cons call calls)
  show ?case
  proof (cases i)
    case 0
    then show ?thesis by simp
  next
    case (Suc j)
    with Cons.prems have "j < length calls" by simp
    from Cons.IH [OF this, of "Suc n"] Suc show ?thesis by simp
  qed
qed

text \<open>
  C6. \<open>getResponseText\<close> gives what the response's \<open>text()\<close> gives. \<open>getToolsFromResponse\<close>
  gives \<open>undefined\<close> when \<open>functionCalls()\<close> reports none, and otherwise a list of the same
  length whose \<open>i\<close>-th tool call has the name and, as input, the arguments of the \<open>i\<close>-th
  function call (and the next UUID as id); an error of the accessor is passed on.
\<close>

theorem getToolsFromResponse_maps_calls:
  "getResponseText response = text_accessor response
   \<and> (functionCalls_accessor response = Inr None \<longrightarrow>
        getToolsFromResponse uuid n response = (Inr None, n))
   \<and> (functionCalls_accessor response = Inr (Some calls) \<longrightarrow>
        (\<exists>ts. getToolsFromResponse uuid n response = (Inr (Some ts), n + length calls)
           \<and> length ts = length calls
           \<and> (\<forall>i. i < length calls \<longrightarrow>
                 tc_name (ts ! i) = fc_name (calls ! i)
               \<and> tc_input (ts ! i) = fc_args (calls ! i)
               \<and> tc_id (ts ! i) = uuid (n + i))))
   \<and> (functionCalls_accessor response = Inl err \<longrightarrow>
        getToolsFromResponse uuid n response = (Inl err, n))"
  by (simp add: getResponseText_def getToolsFromResponse_def length_tool_calls nth_tool_calls)

theorem getToolsFromResponse_maps_calls_witness:
  "getResponseText response_tool = Inr []
   \<and> getToolsFromResponse example_uuid 0 response_plain = (Inr None, 0)
   \<and> (\<exists>ts. getToolsFromResponse example_uuid 0 response_tool = (Inr (Some ts), 1)
         \<and> length ts = 1 \<and> tc_name (ts ! 0) = ''search'' \<and> tc_input (ts ! 0) = ''{q: 1}''
         \<and> tc_id (ts ! 0) = ''u'')
   \<and> getToolsFromResponse example_uuid 0 response_blocked = (Inl (Error ''blocked''), 0)"
  using getToolsFromResponse_maps_calls [where response = response_tool and uuid = example_uuid and n = 0
      and calls = "[\<lparr>fc_name = ''search'', fc_args = ''{q: 1}''\<rparr>]"]
    getToolsFromResponse_maps_calls [where response = response_plain and uuid = example_uuid and n = 0]
    getToolsFromResponse_maps_calls [where response = response_blocked and uuid = example_uuid and n = 0
      and err = "Error ''blocked''"]
  by (auto simp: response_tool_def response_plain_def response_blocked_def example_uuid_def)

subsection \<open>Streams and chat\<close>

lemma streamConverter_chunks:
  assumes "streamConverter (xs, ending) conv n = ((ds, ending1), n1)"
  shows "length ds \<le> length xs
    \<and> (\<forall>i. i < length ds \<longrightarrow> (\<exists>k k1. conv k (xs ! i) = (Inr (ds ! i), k1)))"
  using assms
proof (induction xs arbitrary: n ds ending1 n1)
  case Nil
  then show ?case by simp
next
  case (Cons x xs)
  show ?case
  proof (cases "conv n x")
    case (Pair r k1)
    show ?thesis
    proof (cases r)
      case (Inl e)
      with Pair Cons.prems show ?thesis by simp
    next
      case (Inr d)
      obtain ds' e' n' where rest: "streamConverter (xs, ending) conv k1 = ((ds', e'), n')"
        by (metis prod.exhaust)
      with Pair Inr Cons.prems have ds: "ds = d # ds'" by simp
      from Cons.IH [OF rest]
      have ih: "length ds' \<le> length xs"
        "\<And>i. i < length ds' \<Longrightarrow> \<exists>k k1. conv k (xs ! i) = (Inr (ds' ! i), k1)"
        by auto
      show ?thesis
      proof (intro conjI allI impI)
        show "length ds \<le> length (x # xs)" using ds ih(1) by simp
      next
        fix i assume "i < length ds"
        show "\<exists>k k1. conv k ((x # xs) ! i) = (Inr (ds ! i), k1)"
        proof (cases i)
          case 0
          with Pair Inr ds show ?thesis by auto
        next
          case (Suc j)
          with \<open>i < length ds\<close> ds have "j < length ds'" by simp
          from ih(2) [OF this] Suc ds show ?thesis by simp
        qed
      qed
    qed
  qed
qed


lemma chat_chunk_Inr:
  assumes "chat_chunk uuid k response = (Inr c, k1)"
  shows "chunk_raw c = response \<and> text_accessor response = Inr (delta c)
    \<and> (\<exists>tools. getToolsFromResponse uuid k response = (Inr tools, k1)
          \<and> chunk_options c = tool_call_options tools)"
  using assms
  by (auto simp: chat_chunk_def getResponseText_def Let_def split: prod.splits sum.splits)


lemma tool_call_options_cases:
  "(toolCall (tool_call_options tools) \<noteq> None \<longleftrightarrow> tools \<noteq> None \<and> tools \<noteq> Some [])
   \<and> tool_call_options tools
       = (if tools \<noteq> None \<and> tools \<noteq> Some [] then \<lparr>toolCall = tools\<rparr> else \<lparr>toolCall = None\<rparr>)"
  by (auto simp: tool_call_options_def split: option.splits)

lemma getChatStream_chunk:
  assumes "getChatStream uuid n (rs, ending) = ((cs, ending1), n1)" and "i < length cs"
  shows "i < length rs \<and> chunk_raw (cs ! i) = rs ! i \<and> text_accessor (rs ! i) = Inr (delta (cs ! i))
    \<and> (\<exists>k k1 tools. getToolsFromResponse uuid k (rs ! i) = (Inr tools, k1)
          \<and> chunk_options (cs ! i) = tool_call_options tools)"
proof -
  from assms(1) have sc: "streamConverter (rs, ending) (\<lambda>k response. chat_chunk uuid k response) n
      = ((cs, ending1), n1)"
    by (simp add: getChatStream_def)
  from streamConverter_chunks [OF sc] assms(2)
  obtain k k1 where "i < length rs" and "chat_chunk uuid k (rs ! i) = (Inr (cs ! i), k1)"
    by fastforce
  with chat_chunk_Inr [of uuid k "rs ! i" "cs ! i" k1] show ?thesis
    by blast
qed

lemma nonStreamChat_Inr:
  assumes "nonStreamChat sendMessage roles uuid n g params = (Inr r, n1)"
  shows "sendMessage g params = Inr (raw r)
    \<and> text_accessor (raw r) = Inr (content (message r))
    \<and> (\<exists>top rest. candidates (raw r) = Some (top # rest) \<and> role (message r) = roles (content_role top))
    \<and> (\<exists>tools. getToolsFromResponse uuid n (raw r) = (Inr tools, n1)
          \<and> options (message r) = tool_call_options tools)"
  using assms
  by (auto simp: nonStreamChat_def getResponseText_def Let_def
           split: prod.splits sum.splits option.splits list.splits)

lemmas chat_eval =
  chat_def streamChat_def nonStreamChat_def getChatStream_def chat_chunk_def
  getToolsFromResponse_def getResponseText_def tool_call_options_def Let_def
  response_plain_def response_tool_def example_uuid_def example_roles_def example_chunks_def
  example_response_def example_gemini_def

lemma example_getChatStream:
  "getChatStream example_uuid 0 ([response_plain, response_tool], None) = ((example_chunks, None), 1)"
  by (simp add: chat_eval)

lemma example_nonStreamChat:
  "nonStreamChat (\<lambda>g p. Inr response_tool) example_roles example_uuid 0 example_gemini
     \<lparr>stream = None\<rparr> = (Inr example_response, 1)"
  by (simp add: chat_eval)






text \<open>
  C8. In a chunk of \<open>getChatStream\<close> and in a result of \<open>nonStreamChat\<close>, the options have a
  \<open>toolCall\<close> exactly when the tool calls extracted from the vendor's response are present and
  not empty, and then \<open>toolCall\<close> is that list; otherwise the options are the empty object.
\<close>

theorem toolCall_iff_tools_nonempty:
  "(getChatStream uuid n (rs, ending) = ((cs, ending1), n1) \<and> i < length cs \<longrightarrow>
      (\<exists>k k1 tools. getToolsFromResponse uuid k (chunk_raw (cs ! i)) = (Inr tools, k1)
         \<and> (toolCall (chunk_options (cs ! i)) \<noteq> None \<longleftrightarrow> tools \<noteq> None \<and> tools \<noteq> Some [])
         \<and> chunk_options (cs ! i)
             = (if tools \<noteq> None \<and> tools \<noteq> Some [] then \<lparr>toolCall = tools\<rparr>
                else \<lparr>toolCall = None\<rparr>)))
   \<and> (nonStreamChat sendMessage roles uuid n g params = (Inr r, n1) \<longrightarrow>
      (\<exists>tools. getToolsFromResponse uuid n (raw r) = (Inr tools, n1)
         \<and> (toolCall (options (message r)) \<noteq> None \<longleftrightarrow> tools \<noteq> None \<and> tools \<noteq> Some [])
         \<and> options (message r)
             = (if tools \<noteq> None \<and> tools \<noteq> Some [] then \<lparr>toolCall = tools\<rparr>
                else \<lparr>toolCall = None\<rparr>)))"
proof (intro conjI impI)
  assume a: "getChatStream uuid n (rs, ending) = ((cs, ending1), n1) \<and> i < length cs"
  from getChatStream_chunk [of uuid n rs ending cs ending1 n1 i] a
  obtain k k1 tools where raw: "chunk_raw (cs ! i) = rs ! i"
    and t: "getToolsFromResponse uuid k (rs ! i) = (Inr tools, k1)"
    and o: "chunk_options (cs ! i) = tool_call_options tools"
    by blast
  from raw t o tool_call_options_cases [of tools]
  show "\<exists>k k1 tools. getToolsFromResponse uuid k (chunk_raw (cs ! i)) = (Inr tools, k1)
         \<and> (toolCall (chunk_options (cs ! i)) \<noteq> None \<longleftrightarrow> tools \<noteq> None \<and> tools \<noteq> Some [])
         \<and> chunk_options (cs ! i)
             = (if tools \<noteq> None \<and> tools \<noteq> Some [] then \<lparr>toolCall = tools\<rparr>
                else \<lparr>toolCall = None\<rparr>)"
    by metis
next
  assume a: "nonStreamChat sendMessage roles uuid n g params = (Inr r, n1)"
  from nonStreamChat_Inr [OF a]
  obtain tools where t: "getToolsFromResponse uuid n (raw r) = (Inr tools, n1)"
    and o: "options (message r) = tool_call_options tools"
    by blast
  from t o tool_call_options_cases [of tools]
  show "\<exists>tools. getToolsFromResponse uuid n (raw r) = (Inr tools, n1)
         \<and> (toolCall (options (message r)) \<noteq> None \<longleftrightarrow> tools \<noteq> None \<and> tools \<noteq> Some [])
         \<and> options (message r)
             = (if tools \<noteq> None \<and> tools \<noteq> Some [] then \<lparr>toolCall = tools\<rparr>
                else \<lparr>toolCall = None\<rparr>)"
    by metis
qed

theorem toolCall_iff_tools_nonempty_witness:
  "getChatStream example_uuid 0 ([response_plain, response_tool], None) = ((example_chunks, None), 1)
   \<and> (\<exists>k k1 tools.
         getToolsFromResponse example_uuid k (chunk_raw (example_chunks ! 1)) = (Inr tools, k1)
         \<and> tools \<noteq> None \<and> tools \<noteq> Some []
         \<and> chunk_options (example_chunks ! 1) = \<lparr>toolCall = tools\<rparr>)
   \<and> (\<exists>k k1. getToolsFromResponse example_uuid k (chunk_raw (example_chunks ! 0)) = (Inr None, k1))
   \<and> chunk_options (example_chunks ! 0) = \<lparr>toolCall = None\<rparr>
   \<and> (\<exists>tools. getToolsFromResponse example_uuid 0 (raw example_response) = (Inr tools, 1)
         \<and> tools \<noteq> None \<and> tools \<noteq> Some []
         \<and> options (message example_response) = \<lparr>toolCall = tools\<rparr>)"
proof -
  have one: "(1::nat) < length example_chunks" and zero: "(0::nat) < length example_chunks"
    by (simp_all add: example_chunks_def)
  note t = toolCall_iff_tools_nonempty
    [where uuid = example_uuid and n = 0 and rs = "[response_plain, response_tool]"
       and ending = None and cs = example_chunks and ?ending1.0 = None and ?n1.0 = 1
       and sendMessage = "\<lambda>g p. Inr response_tool" and roles = example_roles
       and g = example_gemini and params = "\<lparr>stream = None\<rparr>" and r = example_response]
  have c1: "toolCall (chunk_options (example_chunks ! 1)) \<noteq> None"
    and c0: "toolCall (chunk_options (example_chunks ! 0)) = None"
    and m: "toolCall (options (message example_response)) \<noteq> None"
    by (simp_all add: example_chunks_def example_response_def)
  from t [where i = 1] example_getChatStream one c1
  have p1: "\<exists>k k1 tools.
         getToolsFromResponse example_uuid k (chunk_raw (example_chunks ! 1)) = (Inr tools, k1)
         \<and> tools \<noteq> None \<and> tools \<noteq> Some []
         \<and> chunk_options (example_chunks ! 1) = \<lparr>toolCall = tools\<rparr>"
    by metis
  from t [where i = 0] example_getChatStream zero c0
  have p0: "\<exists>k k1 tools.
         getToolsFromResponse example_uuid k (chunk_raw (example_chunks ! 0)) = (Inr tools, k1)
         \<and> (tools = None \<or> tools = Some [])
         \<and> chunk_options (example_chunks ! 0) = \<lparr>toolCall = None\<rparr>"
    by metis
  have p0': "\<exists>k k1. getToolsFromResponse example_uuid k (chunk_raw (example_chunks ! 0)) = (Inr None, k1)"
    by (simp add: chat_eval)
  from t [where i = 0] example_nonStreamChat m
  have p2: "\<exists>tools. getToolsFromResponse example_uuid 0 (raw example_response) = (Inr tools, 1)
         \<and> tools \<noteq> None \<and> tools \<noteq> Some []
         \<and> options (message example_response) = \<lparr>toolCall = tools\<rparr>"
    by metis
  from example_getChatStream p1 p0 p0' p2 show ?thesis by blast
qed

subsection \<open>The context-aware agent\<close>







end
